theory Spec2Isabelle
  imports Complex_Main "HOL-Library.Sublist"
begin

section \<open>Values of the dynamically typed parts\<close>

text \<open>
  The webhook payload, the normalized fields and the enrichment data are declared
  \<^verbatim>\<open>Dict[str, Any]\<close> in \<^verbatim>\<open>graph/state.py\<close>: their values are whatever JSON the caller or the
  enrichment provider sent.  Such a value is a \<open>pyval\<close>; a dictionary is an association
  list read with \<open>map_of\<close>.  Numbers are taken by their value (Python floats as reals, so
  rounding is not modelled), strings are byte strings (the case conversions are the ASCII
  ones).
\<close>

datatype pyval =
    PNone
  | PBool bool
  | PNum real
  | PStr string
  | PList "pyval list"
  | PDict "(string \<times> pyval) list"

type_synonym pydict = "(string \<times> pyval) list"

text \<open>
  What a stage raises: the two errors of an operation on a value of the wrong type, and
  an exception of a collaborator that no handler caught, by its text.
\<close>

datatype py_error = AttributeError | TypeError | Raised string

definition bindE :: "'e + 'a \<Rightarrow> ('a \<Rightarrow> 'e + 'b) \<Rightarrow> 'e + 'b" where
  "bindE m f = (case m of Inl e \<Rightarrow> Inl e | Inr x \<Rightarrow> f x)"

text \<open>Truthiness, as \<^verbatim>\<open>if v\<close>, \<^verbatim>\<open>not v\<close> and \<^verbatim>\<open>a or b\<close> test it.\<close>

fun truthy :: "pyval \<Rightarrow> bool" where
  "truthy PNone = False"
| "truthy (PBool b) = b"
| "truthy (PNum x) = (x \<noteq> 0)"
| "truthy (PStr s) = (s \<noteq> [])"
| "truthy (PList xs) = (xs \<noteq> [])"
| "truthy (PDict kvs) = (kvs \<noteq> [])"

definition py_or :: "pyval \<Rightarrow> pyval \<Rightarrow> pyval" where
  "py_or a b = (if truthy a then a else b)"

text \<open>\<^verbatim>\<open>d.get(k, default)\<close> on a dictionary, and on a value that may not be one.\<close>

definition dict_get :: "pydict \<Rightarrow> string \<Rightarrow> pyval \<Rightarrow> pyval" where
  "dict_get d k dflt = (case map_of d k of None \<Rightarrow> dflt | Some v \<Rightarrow> v)"

definition py_get :: "pyval \<Rightarrow> string \<Rightarrow> pyval \<Rightarrow> py_error + pyval" where
  "py_get v k dflt = (case v of PDict d \<Rightarrow> Inr (dict_get d k dflt) | _ \<Rightarrow> Inl AttributeError)"

text \<open>A string method called on a value: only a string has it.\<close>

definition as_str :: "pyval \<Rightarrow> py_error + string" where
  "as_str v = (case v of PStr s \<Rightarrow> Inr s | _ \<Rightarrow> Inl AttributeError)"

text \<open>\<^verbatim>\<open>x >= n\<close> for a number \<open>n\<close>: booleans compare as 0 and 1, other types raise.\<close>

definition py_ge :: "pyval \<Rightarrow> real \<Rightarrow> py_error + bool" where
  "py_ge v n = (case v of PNum x \<Rightarrow> Inr (n \<le> x)
                | PBool b \<Rightarrow> Inr (n \<le> (if b then 1 else 0))
                | _ \<Rightarrow> Inl TypeError)"

section \<open>String methods\<close>

definition lower_char :: "char \<Rightarrow> char" where
  "lower_char c = (let n = (of_char c :: nat) in if 65 \<le> n \<and> n \<le> 90 then char_of (n + 32) else c)"

definition upper_char :: "char \<Rightarrow> char" where
  "upper_char c = (let n = (of_char c :: nat) in if 97 \<le> n \<and> n \<le> 122 then char_of (n - 32) else c)"

definition str_lower :: "string \<Rightarrow> string" where
  "str_lower s = map lower_char s"

definition str_upper :: "string \<Rightarrow> string" where
  "str_upper s = map upper_char s"

definition is_space :: "char \<Rightarrow> bool" where
  "is_space c = (let n = (of_char c :: nat) in (9 \<le> n \<and> n \<le> 13) \<or> (28 \<le> n \<and> n \<le> 32))"

definition str_strip :: "string \<Rightarrow> string" where
  "str_strip s = rev (dropWhile is_space (rev (dropWhile is_space s)))"

text \<open>\<^verbatim>\<open>s.replace(old, "")\<close>: the occurrences of \<open>old\<close> are cut out from left to right.\<close>

fun str_remove :: "string \<Rightarrow> string \<Rightarrow> string" where
  "str_remove old [] = []"
| "str_remove old (c # cs) =
     (if old = [] then c # cs
      else if prefix old (c # cs) then str_remove old (drop (length old - 1) cs)
      else c # str_remove old cs)"

text \<open>\<^verbatim>\<open>s.split("/")[0]\<close>: the part before the first slash (the whole string if none).\<close>

definition before_slash :: "string \<Rightarrow> string" where
  "before_slash s = takeWhile (\<lambda>c. c \<noteq> CHR ''/'') s"

text \<open>\<^verbatim>\<open>s.endswith((d1, ..., dn))\<close> and \<^verbatim>\<open>any(r in s for r in rs)\<close>.\<close>

definition endswith_any :: "string \<Rightarrow> string list \<Rightarrow> bool" where
  "endswith_any s ds = list_ex (\<lambda>d. suffix d s) ds"

definition contains_any :: "string \<Rightarrow> string list \<Rightarrow> bool" where
  "contains_any s rs = list_ex (\<lambda>r. sublist r s) rs"

text \<open>
  \<^verbatim>\<open>repr\<close> of a list of plain names, as an f-string prints it:
  \<^verbatim>\<open>['company', 'full_name']\<close>.
\<close>

definition quoted :: "string \<Rightarrow> string" where
  "quoted s = [CHR 0x27] @ s @ [CHR 0x27]"

fun join_comma :: "string list \<Rightarrow> string" where
  "join_comma [] = []"
| "join_comma [x] = x"
| "join_comma (x # y # ys) = x @ '', '' @ join_comma (y # ys)"

definition repr_names :: "string list \<Rightarrow> string" where
  "repr_names xs = ''['' @ join_comma (map quoted xs) @ '']''"

section \<open>The state record (graph/state.py)\<close>

text \<open>
  \<^verbatim>\<open>LeadState\<close> is a \<^verbatim>\<open>TypedDict\<close> with \<^verbatim>\<open>total=False\<close>: every key may be absent (\<open>None\<close>
  here).  Fields declared with a definite type carry it; fields filled from \<^verbatim>\<open>Any\<close> data
  (\<open>lead_id\<close>, \<open>owner\<close>, \<open>crm_record_id\<close>) are values, so \<open>Some PNone\<close> is a key
  present with the value \<^verbatim>\<open>None\<close>.  The keys \<open>summary\<close>, \<open>nurture_data\<close>, \<open>nurture_task\<close> and
  \<open>email_sequence\<close> are written by the stages without being declared.

  \<open>decided_path_writes\<close> is not a key of the dictionary: it counts the assignments
  \<^verbatim>\<open>state["decided_path"] = ...\<close> made to this dictionary so far, and nothing reads it.
\<close>

record lead_state =
  lead_id :: "pyval option"
  raw :: "pydict option"
  normalized :: "pydict option"
  enrichment :: "pydict option"
  score :: "real option"
  score_reasons :: "string list option"
  owner :: "pyval option"
  route_reason :: "string option"
  similar_accounts :: "pydict list option"
  crm_record_id :: "pyval option"
  notifications :: "string list option"
  errors :: "string list option"
  decided_path :: "string option"
  summary :: "string option"
  nurture_data :: "pydict option"
  nurture_task :: "pydict option"
  email_sequence :: "pydict option"
  decided_path_writes :: nat

text \<open>\<^verbatim>\<open>state.get(key, {})\<close> for a dictionary-valued key.\<close>

definition get_dict :: "pydict option \<Rightarrow> pydict" where
  "get_dict d = (case d of None \<Rightarrow> [] | Some kvs \<Rightarrow> kvs)"

text \<open>\<^verbatim>\<open>state.setdefault("errors", []).append(msg)\<close>.\<close>

definition append_error :: "string \<Rightarrow> lead_state \<Rightarrow> lead_state" where
  "append_error msg st =
     st\<lparr>errors := Some ((case errors st of None \<Rightarrow> [] | Some es \<Rightarrow> es) @ [msg])\<rparr>"

text \<open>\<^verbatim>\<open>state["decided_path"] = p\<close>.\<close>

definition set_decided_path :: "string \<Rightarrow> lead_state \<Rightarrow> lead_state" where
  "set_decided_path p st =
     st\<lparr>decided_path := Some p, decided_path_writes := decided_path_writes st + 1\<rparr>"

text \<open>The state \<^verbatim>\<open>ingest_lead\<close> builds for an admitted payload (app.py, lines 123-128).\<close>

definition initial_state :: "pydict \<Rightarrow> lead_state" where
  "initial_state payload =
     \<lparr> lead_id = None, raw = Some payload, normalized = None, enrichment = None,
       score = None, score_reasons = Some [], owner = None, route_reason = None,
       similar_accounts = None, crm_record_id = None, notifications = Some [],
       errors = Some [], decided_path = None, summary = None, nurture_data = None,
       nurture_task = None, email_sequence = None, decided_path_writes = 0 \<rparr>"

section \<open>Collaborators\<close>

text \<open>
  The stages call the clients of \<^verbatim>\<open>tools/\<close> (enrichment provider, scoring and summarising
  model, CRM, similarity store) and read the routing file.  What these answer is not
  decided by the stage code, so it is a parameter: each call either returns a value of its
  declared type or raises, and a raised exception \<open>e\<close> is \<open>Inl\<close> of its text \<^verbatim>\<open>str(e)\<close>.
  None of the clients assigns to the state it is given.  \<open>py_format\<close> and \<open>format_2f\<close>
  are Python's formatting of a number, list or dictionary and of a float with \<^verbatim>\<open>:.2f\<close>.
\<close>

datatype routing_file =
    NotFound
  | InvalidJSON
  | Loaded pyval
  | Unreadable string

record tools =
  py_format :: "pyval \<Rightarrow> string"
  format_2f :: "real \<Rightarrow> string"
  enrich_domain_person :: "pyval \<Rightarrow> pyval \<Rightarrow> string + pydict"
  score_lead_with_rubric :: "lead_state \<Rightarrow> real \<Rightarrow> string + real \<times> string list"
  routing_config :: routing_file
  find_owner_by_rules :: "pydict \<Rightarrow> pydict \<Rightarrow> pyval \<Rightarrow> string + pyval"
  create_or_update_contact :: "lead_state \<Rightarrow> string + pydict option"
  find_similar_accounts :: "lead_state \<Rightarrow> string + pydict list"
  summarize_for_ae :: "lead_state \<Rightarrow> pydict list \<Rightarrow> string + string"

section \<open>Capture stage (graph/nodes/capture.py)\<close>

text \<open>
  \<open>py_str\<close> is what an f-string prints for a value.  For numbers, lists and dictionaries
  it is Python's own formatting, which the stage takes as given (\<open>fmt\<close>).
\<close>

fun py_str :: "(pyval \<Rightarrow> string) \<Rightarrow> pyval \<Rightarrow> string" where
  "py_str fmt (PStr s) = s"
| "py_str fmt PNone = ''None''"
| "py_str fmt (PBool b) = (if b then ''True'' else ''False'')"
| "py_str fmt v = fmt v"

definition REQUIRED_FIELDS :: "string list" where
  "REQUIRED_FIELDS = [''email'', ''company'', ''full_name'']"

definition capture_email :: "pydict \<Rightarrow> py_error + string" where
  "capture_email r =
     (let e = dict_get r ''email'' PNone in
      if truthy e then bindE (as_str e) (\<lambda>s. Inr (str_lower s))
      else bindE (py_get (dict_get r ''properties'' (PDict [])) ''email'' (PDict [])) (\<lambda>pe.
           bindE (py_get pe ''value'' (PStr [])) (\<lambda>v.
           bindE (as_str v) (\<lambda>s. Inr (str_lower s)))))"

definition capture_company :: "pydict \<Rightarrow> py_error + pyval" where
  "capture_company r =
     (let c = py_or (dict_get r ''company'' PNone) (dict_get r ''company_name'' PNone) in
      if truthy c then Inr c
      else py_get (dict_get r ''properties'' (PDict [])) ''company'' PNone)"

definition capture_domain :: "pydict \<Rightarrow> py_error + string" where
  "capture_domain r =
     bindE (as_str (py_or (py_or (dict_get r ''website'' PNone) (dict_get r ''domain'' PNone))
                          (PStr [])))
       (\<lambda>s. Inr (before_slash (str_remove ''http://'' (str_remove ''https://'' s))))"

definition capture_full_name :: "(pyval \<Rightarrow> string) \<Rightarrow> pydict \<Rightarrow> pyval" where
  "capture_full_name fmt r =
     py_or (dict_get r ''full_name'' PNone)
       (PStr (str_strip (py_str fmt (dict_get r ''first_name'' (PStr [])) @ '' '' @
                         py_str fmt (dict_get r ''last_name'' (PStr [])))))"

definition normalize :: "(pyval \<Rightarrow> string) \<Rightarrow> pydict \<Rightarrow> py_error + pydict" where
  "normalize fmt r =
     bindE (capture_email r) (\<lambda>email.
     bindE (capture_company r) (\<lambda>company.
     bindE (capture_domain r) (\<lambda>domain.
       Inr [(''email'', PStr email),
            (''company'', company),
            (''domain'', PStr domain),
            (''full_name'', capture_full_name fmt r),
            (''country'', dict_get r ''country'' PNone),
            (''title'', dict_get r ''title'' PNone),
            (''source'', dict_get r ''source'' PNone)])))"

definition missing_fields :: "pydict \<Rightarrow> string list" where
  "missing_fields n = filter (\<lambda>f. \<not> truthy (dict_get n f PNone)) REQUIRED_FIELDS"

definition missing_message :: "string list \<Rightarrow> string" where
  "missing_message ms = ''Missing required fields: '' @ repr_names ms"

definition capture :: "tools \<Rightarrow> lead_state \<Rightarrow> py_error + lead_state" where
  "capture tls st =
     (let r = get_dict (raw st) in
      bindE (normalize (py_format tls) r) (\<lambda>n.
        let ms = missing_fields n;
            st1 = (if ms \<noteq> [] then append_error (missing_message ms) st else st)
        in Inr (st1\<lparr>normalized := Some n,
                    lead_id := Some (py_or (dict_get r ''id'' PNone) (dict_get n ''email'' PNone))\<rparr>)))"

section \<open>Enrich stage (graph/nodes/enrich.py)\<close>

definition enrich :: "tools \<Rightarrow> lead_state \<Rightarrow> lead_state" where
  "enrich tls st =
     (let norm = get_dict (normalized st) in
      if \<not> truthy (dict_get norm ''domain'' PNone) \<and> \<not> truthy (dict_get norm ''email'' PNone)
      then st\<lparr>enrichment := Some []\<rparr>
      else (case enrich_domain_person tls (dict_get norm ''domain'' PNone)
                                         (dict_get norm ''email'' PNone) of
              Inr data \<Rightarrow> st\<lparr>enrichment := Some data\<rparr>
            | Inl e \<Rightarrow> (append_error (''Enrichment failed: '' @ e) st)\<lparr>enrichment := Some []\<rparr>))"

section \<open>Score stage (graph/nodes/score.py)\<close>

definition min_headcount :: real where
  "min_headcount = 20"

definition allowed_countries :: "string list" where
  "allowed_countries = [''US'', ''CA'', ''UK'', ''DE'', ''FR'', ''MA'']"

definition blocked_free_email :: bool where
  "blocked_free_email = True"

definition icp_industries :: "string list" where
  "icp_industries = [''saas'', ''fintech'', ''ecommerce'', ''healthtech'', ''edtech'']"

definition buying_roles :: "string list" where
  "buying_roles = [''head'', ''lead'', ''director'', ''vp'', ''cxo'', ''chief'', ''manager'']"

definition free_domains :: "string list" where
  "free_domains = [''gmail.com'', ''yahoo.com'', ''outlook.com'', ''hotmail.com'']"

definition clamp01 :: "real \<Rightarrow> real" where
  "clamp01 x = max 0 (min 1 x)"

text \<open>
  The rule scorer reads \<^verbatim>\<open>Any\<close> data without a handler around it, so each read that can
  raise is a step of the error monad, in the order of the source.
\<close>

definition rule_score :: "lead_state \<Rightarrow> py_error + real" where
  "rule_score st =
     (let e = get_dict (enrichment st);
          norm = get_dict (normalized st);
          company = dict_get e ''company'' (PDict []);
          s0 = (0::real)
      in
      bindE (py_get company ''employees'' (PNum 0)) (\<lambda>headcount.
      bindE (py_ge headcount min_headcount) (\<lambda>big.
      bindE (if big then py_ge headcount 100 else Inr False) (\<lambda>bigger.
      let s1 = (if big then (if bigger then s0 + 0.3 + 0.1 else s0 + 0.3) else s0) in
      bindE (py_get company ''industry'' (PStr [])) (\<lambda>ind.
      bindE (as_str ind) (\<lambda>ind_s.
      let industry = str_lower ind_s;
          s2 = (if industry \<in> set icp_industries then s1 + 0.2 else s1) in
      bindE (as_str (py_or (dict_get norm ''title'' PNone) (PStr []))) (\<lambda>title_s.
      let title = str_lower title_s;
          s3 = (if contains_any title buying_roles then s2 + 0.2 else s2) in
      bindE (as_str (py_or (dict_get norm ''country'' PNone) (PStr []))) (\<lambda>country_s.
      let country = str_upper country_s;
          s4 = (if country \<in> set allowed_countries then s3 + 0.1 else s3) in
      bindE (if blocked_free_email then as_str (dict_get norm ''email'' (PStr [])) else Inr [])
        (\<lambda>email.
      let s5 = (if blocked_free_email \<and> endswith_any email free_domains then s4 - 0.4 else s4) in
      bindE (py_get company ''tech'' (PList [])) (\<lambda>tech_stack.
      let s6 = (if truthy tech_stack then s5 + 0.1 else s5) in
      Inr (clamp01 s6)))))))))))"

definition score_stage :: "tools \<Rightarrow> lead_state \<Rightarrow> py_error + lead_state" where
  "score_stage tls st =
     bindE (rule_score st) (\<lambda>base_score.
       case score_lead_with_rubric tls st base_score of
         Inr (llm_score, reasons) \<Rightarrow>
           Inr (st\<lparr>score := Some (clamp01 (0.5 * base_score + 0.5 * llm_score)),
                   score_reasons := Some reasons\<rparr>)
       | Inl e \<Rightarrow>
           Inr ((append_error (''LLM scoring failed: '' @ e) st)
                  \<lparr>score := Some base_score,
                   score_reasons := Some [''Rule-based scoring only (LLM failed)'']\<rparr>))"

section \<open>Branch decision (app.py, build\_workflow)\<close>

datatype node = Route | Nurture | Summarize

definition branch_decision :: "lead_state \<Rightarrow> node \<times> lead_state" where
  "branch_decision st =
     (let score_val = (case score st of None \<Rightarrow> 0 | Some x \<Rightarrow> x);
          own = (case owner st of None \<Rightarrow> PNone | Some v \<Rightarrow> v)
      in if score_val \<ge> 0.7 \<and> truthy own then (Route, st)
         else if score_val < 0.4 then (Nurture, set_decided_path ''nurture'' st)
         else (Summarize, set_decided_path ''manual_review'' st))"

section \<open>Route stage (graph/nodes/route.py)\<close>

text \<open>
  \<open>load_routing_rules\<close> opens and parses the routing file.  A missing file and a file that
  is not JSON are handled; any other failure of \<^verbatim>\<open>open\<close> or \<^verbatim>\<open>json.load\<close> is raised, and a
  file that parses is returned as it is, a mapping or not.
\<close>

definition default_routes :: pydict where
  "default_routes =
     [(''US'', PStr ''us-team@company.com''),
      (''CA'', PStr ''canada-team@company.com''),
      (''UK'', PStr ''emea-team@company.com''),
      (''DEFAULT'', PStr ''general@company.com'')]"

fun load_routing_rules :: "routing_file \<Rightarrow> string + pyval" where
  "load_routing_rules NotFound = Inr (PDict default_routes)"
| "load_routing_rules InvalidJSON = Inr (PDict [(''DEFAULT'', PStr ''general@company.com'')])"
| "load_routing_rules (Loaded v) = Inr v"
| "load_routing_rules (Unreadable e) = Inl e"

text \<open>The arrow of the reason text, U+2192 in UTF-8.\<close>

definition arrow :: string where
  "arrow = [CHR 0xE2, CHR 0x86, CHR 0x92]"

text \<open>
  The handler of the outer \<^verbatim>\<open>try\<close>.  It loads the rules again, outside any handler, so
  what that raises leaves the stage.
\<close>

definition route_fallback :: "tools \<Rightarrow> string \<Rightarrow> lead_state \<Rightarrow> py_error + lead_state" where
  "route_fallback tls e st =
     (let st1 = append_error (''Routing failed: '' @ e) st in
      case load_routing_rules (routing_config tls) of
        Inl e2 \<Rightarrow> Inl (Raised e2)
      | Inr routes \<Rightarrow>
          bindE (py_get routes ''DEFAULT'' (PStr ''unassigned@company.com'')) (\<lambda>d.
            Inr (st1\<lparr>owner := Some d,
                     route_reason := Some ''Fallback to default owner due to routing error''\<rparr>)))"

definition upsert_contact :: "tools \<Rightarrow> lead_state \<Rightarrow> lead_state" where
  "upsert_contact tls st =
     (case create_or_update_contact tls st of
        Inr crm_record \<Rightarrow>
          st\<lparr>crm_record_id :=
               Some (case crm_record of
                       None \<Rightarrow> PNone
                     | Some d \<Rightarrow> if d = [] then PNone else dict_get d ''id'' PNone)\<rparr>
      | Inl e \<Rightarrow> (append_error (''CRM operation failed: '' @ e) st)\<lparr>crm_record_id := Some PNone\<rparr>)"

definition route :: "tools \<Rightarrow> lead_state \<Rightarrow> py_error + lead_state" where
  "route tls st =
     (case load_routing_rules (routing_config tls) of
        Inl e \<Rightarrow> route_fallback tls e st
      | Inr routes \<Rightarrow>
          (case find_owner_by_rules tls (get_dict (normalized st)) (get_dict (enrichment st)) routes of
             Inl e \<Rightarrow> route_fallback tls e st
           | Inr own \<Rightarrow>
               let st1 = upsert_contact tls (st\<lparr>owner := Some own\<rparr>);
                   country = dict_get (get_dict (normalized st1)) ''country'' (PStr ''unknown'')
               in Inr (st1\<lparr>route_reason :=
                              Some (''Matched territory '' @ py_str (py_format tls) country @ '' ''
                                    @ arrow @ '' '' @ py_str (py_format tls) own)\<rparr>)))"

section \<open>Summarize stage (graph/nodes/summarize.py)\<close>

definition basic_summary :: "tools \<Rightarrow> lead_state \<Rightarrow> string" where
  "basic_summary tls st =
     (let norm = get_dict (normalized st) in
      ''Lead: '' @ py_str (py_format tls) (dict_get norm ''full_name'' PNone) @ '' from ''
        @ py_str (py_format tls) (dict_get norm ''company'' PNone) @ '' (Score: ''
        @ format_2f tls (case score st of None \<Rightarrow> 0 | Some x \<Rightarrow> x) @ '')'')"

definition summarize :: "tools \<Rightarrow> lead_state \<Rightarrow> lead_state" where
  "summarize tls st =
     (case find_similar_accounts tls st of
        Inl e \<Rightarrow>
          (append_error (''Summarization failed: '' @ e) st)
            \<lparr>similar_accounts := Some [], summary := Some ''Summary generation failed''\<rparr>
      | Inr similar_accounts_list \<Rightarrow>
          let st1 = st\<lparr>similar_accounts := Some similar_accounts_list\<rparr> in
          (case summarize_for_ae tls st1 similar_accounts_list of
             Inr text \<Rightarrow> st1\<lparr>summary := Some text\<rparr>
           | Inl e \<Rightarrow>
               (let st2 = append_error (''LLM summarization failed: '' @ e) st1
                in st2\<lparr>summary := Some (basic_summary tls st2)\<rparr>)))"

section \<open>Nurture stage (graph/nodes/nurture.py)\<close>

text \<open>
  Nothing in the body of the \<^verbatim>\<open>try\<close> can raise (it reads the state with \<^verbatim>\<open>get\<close> and builds
  literals), so the handler, which assigns \<open>decided_path\<close> once more, is never entered.
\<close>

definition nurture :: "tools \<Rightarrow> lead_state \<Rightarrow> lead_state" where
  "nurture tls st =
     (let st1 = set_decided_path ''nurture'' st;
          st2 = st1\<lparr>nurture_data := Some
                  [(''sequence_name'', PStr ''low_score_nurture''),
                   (''entry_date'', PStr ''now''),
                   (''revisit_date'', PStr ''30_days''),
                   (''score'', PNum (case score st1 of None \<Rightarrow> 0 | Some x \<Rightarrow> x)),
                   (''reasons'', PList (map PStr (case score_reasons st1 of None \<Rightarrow> []
                                                                          | Some rs \<Rightarrow> rs)))]\<rparr>;
          st3 = st2\<lparr>nurture_task := Some
                  [(''type'', PStr ''nurture_followup''),
                   (''due_date'', PStr ''30_days''),
                   (''description'',
                      PStr (''Re-evaluate lead ''
                            @ py_str (py_format tls) (case lead_id st2 of None \<Rightarrow> PNone | Some v \<Rightarrow> v)
                            @ '' after nurturing period'')),
                   (''assigned_to'', PStr ''marketing@company.com'')]\<rparr>
      in st3\<lparr>email_sequence := Some
              [(''sequence'', PStr ''low_score_education''),
               (''emails'', PList
                  [PDict [(''day'', PNum 1), (''subject'', PStr ''Welcome to our community'')],
                   PDict [(''day'', PNum 7), (''subject'', PStr ''Industry insights and trends'')],
                   PDict [(''day'', PNum 21),
                          (''subject'', PStr ''Case study: How we helped similar companies'')]])]\<rparr>)"

section \<open>The workflow graph (app.py, build\_workflow)\<close>

text \<open>
  The edges of the graph: capture, enrich, score, then the node that \<open>branch_decision\<close>
  names: route followed by summarize, or nurture, or summarize.  A node is called with the
  state, and the state it returns is the state from then on.  \<open>branch_decision\<close> is not a
  node but the function of a conditional edge: the engine calls it on the state only to
  learn the name of the next node, and what it assigns to its argument is not in the
  state that node receives.  An exception that leaves a stage ends the run.
\<close>

definition run_to_score :: "tools \<Rightarrow> lead_state \<Rightarrow> py_error + lead_state" where
  "run_to_score tls st = bindE (capture tls st) (\<lambda>st1. score_stage tls (enrich tls st1))"

definition after_branch :: "tools \<Rightarrow> node \<Rightarrow> lead_state \<Rightarrow> py_error + lead_state" where
  "after_branch tls n st =
     (case n of
        Route \<Rightarrow> bindE (route tls st) (\<lambda>st1. Inr (summarize tls st1))
      | Nurture \<Rightarrow> Inr (nurture tls st)
      | Summarize \<Rightarrow> Inr (summarize tls st))"

definition run_workflow :: "tools \<Rightarrow> lead_state \<Rightarrow> py_error + lead_state" where
  "run_workflow tls st =
     bindE (run_to_score tls st) (\<lambda>st2. after_branch tls (fst (branch_decision st2)) st2)"

section \<open>Idempotency guard (tools/idempotency.py)\<close>

text \<open>
  The shared store is a Redis server.  Of it the guard uses \<^verbatim>\<open>SET name value EX ttl NX\<close>
  (set if absent, with an expiry) and \<^verbatim>\<open>DEL\<close>: an entry holds its value and the instant it
  expires.  A call made while the server does not answer raises.  So does a call whose
  expiry the server rejects: one that is not positive, or one so large that the instant
  of expiry, which the server keeps in milliseconds, does not fit a signed 64-bit integer.
  Time is in seconds.
\<close>

type_synonym redis_store = "string \<Rightarrow> (int \<times> real) option"

definition expire_ok :: "real \<Rightarrow> int \<Rightarrow> bool" where
  "expire_ok now ttl = (0 < ttl \<and> ttl * 1000 + \<lfloor>now * 1000\<rfloor> \<le> 2 ^ 63 - 1)"

definition redis_set_nx_ex ::
    "redis_store \<Rightarrow> bool \<Rightarrow> real \<Rightarrow> string \<Rightarrow> int \<Rightarrow> int \<Rightarrow> string + (bool \<times> redis_store)" where
  "redis_set_nx_ex store up now name v ttl =
     (if \<not> up then Inl ''Connection refused''
      else if \<not> expire_ok now ttl then Inl ''invalid expire time in set''
      else (case store name of
              Some (v0, expires) \<Rightarrow>
                if now < expires then Inr (False, store)
                else Inr (True, store(name \<mapsto> (v, now + real_of_int ttl)))
            | None \<Rightarrow> Inr (True, store(name \<mapsto> (v, now + real_of_int ttl)))))"

definition redis_delete ::
    "redis_store \<Rightarrow> bool \<Rightarrow> real \<Rightarrow> string \<Rightarrow> string + (bool \<times> redis_store)" where
  "redis_delete store up now name =
     (if \<not> up then Inl ''Connection refused''
      else (case store name of
              Some (v0, expires) \<Rightarrow> Inr (now < expires, store(name := None))
            | None \<Rightarrow> Inr (False, store)))"

text \<open>
  The guard is \<open>Redis\<close> when the connection was made in \<^verbatim>\<open>__init__\<close> (\<^verbatim>\<open>self.r\<close>), and
  \<open>Memory\<close> with the set \<^verbatim>\<open>_memory_keys\<close> when it failed (\<^verbatim>\<open>self.r = None\<close>).
\<close>

datatype idem = Redis redis_store | Memory "string set"

definition init_idem :: "bool \<Rightarrow> redis_store \<Rightarrow> idem" where
  "init_idem reachable store = (if reachable then Redis store else Memory {})"

text \<open>
  \<open>check_and_set g up now key ttl\<close>: \<open>up\<close> says whether the store answers this call,
  \<open>now\<close> is \<^verbatim>\<open>time.time()\<close>.
\<close>

definition check_and_set :: "idem \<Rightarrow> bool \<Rightarrow> real \<Rightarrow> string \<Rightarrow> int \<Rightarrow> bool \<times> idem" where
  "check_and_set g up now key ttl =
     (if key = [] then (False, g)
      else (case g of
              Redis store \<Rightarrow>
                (case redis_set_nx_ex store up now (''idem:'' @ key) \<lfloor>now\<rfloor> ttl of
                   Inr (result, store') \<Rightarrow> (result, Redis store')
                 | Inl e \<Rightarrow> (True, g))
            | Memory keys \<Rightarrow>
                if key \<in> keys then (False, g) else (True, Memory (insert key keys))))"

definition clear_key :: "idem \<Rightarrow> bool \<Rightarrow> real \<Rightarrow> string \<Rightarrow> bool \<times> idem" where
  "clear_key g up now key =
     (case g of
        Redis store \<Rightarrow>
          (case redis_delete store up now (''idem:'' @ key) of
             Inr (deleted, store') \<Rightarrow> (deleted, Redis store')
           | Inl e \<Rightarrow> (False, g))
      | Memory keys \<Rightarrow> (True, Memory (keys - {key})))"

text \<open>A later life of the guard: any calls, each with its own instant and store status.\<close>

datatype call = CheckAndSet string int | ClearKey string

fun do_call :: "idem \<Rightarrow> call \<times> bool \<times> real \<Rightarrow> idem" where
  "do_call g (CheckAndSet key ttl, up, now) = snd (check_and_set g up now key ttl)"
| "do_call g (ClearKey key, up, now) = snd (clear_key g up now key)"

definition do_calls :: "idem \<Rightarrow> (call \<times> bool \<times> real) list \<Rightarrow> idem" where
  "do_calls g cs = foldl do_call g cs"

section \<open>Concrete inputs\<close>

text \<open>
  Collaborators that all fail (every client raises, the routing file is missing), for
  running the stages on concrete states.
\<close>

definition offline_tools :: tools where
  "offline_tools =
     \<lparr> py_format = (\<lambda>v. ''?''),
       format_2f = (\<lambda>x. ''?''),
       enrich_domain_person = (\<lambda>d e. Inl ''offline''),
       score_lead_with_rubric = (\<lambda>st b. Inl ''offline''),
       routing_config = NotFound,
       find_owner_by_rules = (\<lambda>n e r. Inl ''offline''),
       create_or_update_contact = (\<lambda>st. Inl ''offline''),
       find_similar_accounts = (\<lambda>st. Inl ''offline''),
       summarize_for_ae = (\<lambda>st accts. Inl ''offline'') \<rparr>"


definition state_with_email :: lead_state where
  "state_with_email = (initial_state [])\<lparr>normalized := Some [(''email'', PStr ''j@acme.com'')]\<rparr>"

text \<open>
  Scenario A: the payload, what the enrichment provider returns (a headcount of 150 and
  the industry, nothing else), and a model scorer that answers 0.85.
\<close>

definition payload_A :: pydict where
  "payload_A =
     [(''email'', PStr ''j@acme.com''), (''company'', PStr ''Acme''),
      (''full_name'', PStr ''J Doe''), (''title'', PStr ''Director''),
      (''country'', PStr ''US'')]"

definition normalized_A :: pydict where
  "normalized_A =
     [(''email'', PStr ''j@acme.com''), (''company'', PStr ''Acme''), (''domain'', PStr []),
      (''full_name'', PStr ''J Doe''), (''country'', PStr ''US''), (''title'', PStr ''Director''),
      (''source'', PNone)]"

definition enrichment_A :: pydict where
  "enrichment_A =
     [(''company'', PDict [(''employees'', PNum 150), (''industry'', PStr ''saas'')])]"

definition tools_A :: tools where
  "tools_A = offline_tools
     \<lparr> enrich_domain_person := (\<lambda>d e. Inr enrichment_A),
       score_lead_with_rubric := (\<lambda>st b. Inr (0.85, [''ICP match: SaaS''])) \<rparr>"

text \<open>The state that reaches the score stage: capture, then enrich.\<close>

definition enriched :: "tools \<Rightarrow> pydict \<Rightarrow> py_error + lead_state" where
  "enriched tls payload =
     bindE (capture tls (initial_state payload)) (\<lambda>st. Inr (enrich tls st))"

text \<open>
  A payload in the nested form the capture stage reads (\<^verbatim>\<open>properties.email.value\<close>), whose
  email value is \<^verbatim>\<open>null\<close>; and one that only has an email.
\<close>

definition payload_null_email :: pydict where
  "payload_null_email =
     [(''company'', PStr ''Acme''), (''full_name'', PStr ''J Doe''),
      (''properties'', PDict [(''email'', PDict [(''value'', PNone)])])]"

definition payload_email_only :: pydict where
  "payload_email_only = [(''email'', PStr ''test@example.com'')]"

text \<open>A model scorer that answers far out of range.\<close>

definition tools_wild :: tools where
  "tools_wild = offline_tools \<lparr> score_lead_with_rubric := (\<lambda>st b. Inr (7.5, [])) \<rparr>"

text \<open>
  A routing file that holds the JSON array \<^verbatim>\<open>[]\<close>.  Owner lookup then raises, as the client
  does when it calls \<^verbatim>\<open>routes.get\<close> on the list.
\<close>

definition tools_list_config :: tools where
  "tools_list_config = offline_tools
     \<lparr> routing_config := Loaded (PList []),
       find_owner_by_rules :=
         (\<lambda>n e r. Inl (quoted ''list'' @ '' object has no attribute '' @ quoted ''get'')) \<rparr>"

section \<open>Notions used to state the properties\<close>

text \<open>
  A payload is plain when it has no \<open>properties\<close> entry and its \<open>email\<close>, \<open>website\<close> and
  \<open>domain\<close>, where present, are strings.
\<close>

definition plain_payload :: "pydict \<Rightarrow> bool" where
  "plain_payload r =
     (map_of r ''properties'' = None
      \<and> list_all (\<lambda>k. case map_of r k of None \<Rightarrow> True | Some (PStr s) \<Rightarrow> True | Some v \<Rightarrow> False)
           [''email'', ''website'', ''domain''])"


text \<open>
  The guard holds a key at an instant: an unexpired entry in the store, or membership in
  the process-local set.  A call is served when nothing stops the guard from carrying it
  out: always so with the process-local set; with the store, when the store answers and
  accepts the expiry.
\<close>

definition held :: "idem \<Rightarrow> real \<Rightarrow> string \<Rightarrow> bool" where
  "held g now key =
     (case g of
        Redis store \<Rightarrow> (case store (''idem:'' @ key) of
                          Some (v, expires) \<Rightarrow> now < expires
                        | None \<Rightarrow> False)
      | Memory keys \<Rightarrow> key \<in> keys)"

definition served :: "idem \<Rightarrow> bool \<Rightarrow> real \<Rightarrow> int \<Rightarrow> bool" where
  "served g up now ttl = (case g of Redis store \<Rightarrow> up \<and> expire_ok now ttl | Memory keys \<Rightarrow> True)"

section \<open>Basic facts\<close>

lemma bindE_InrE:
  assumes "bindE m f = Inr b"
  obtains x where "m = Inr x" and "f x = Inr b"
  using assms by (cases m) (simp_all add: bindE_def)

lemma clamp01_range: "0 \<le> clamp01 x \<and> clamp01 x \<le> 1"
  by (simp add: clamp01_def)

lemma rule_score_clamped:
  assumes "rule_score st = Inr b"
  shows "\<exists>s. b = clamp01 s"
  using assms unfolding rule_score_def Let_def
  by (elim bindE_InrE) blast

lemma rule_score_range:
  assumes "rule_score st = Inr b"
  shows "0 \<le> b \<and> b \<le> 1"
  using rule_score_clamped [OF assms] clamp01_range by auto

section \<open>The branch law\<close>

text \<open>
  What \<open>branch_decision\<close> does with the state it is called on.  Below 0.4 it assigns
  nurture and names the nurture stage; from 0.4 on, when the score is below 0.7 or the
  owner is not set, it assigns manual\_review and names the summarize stage; it names the
  route stage exactly when the score is at least 0.7 and the owner is set.
\<close>

lemma branch_decision_law:
  assumes "score st = Some x"
  shows "(x < 0.4 \<longrightarrow> branch_decision st = (Nurture, set_decided_path ''nurture'' st))
       \<and> (0.4 \<le> x \<and> (x < 0.7 \<or> \<not> truthy (case owner st of None \<Rightarrow> PNone | Some v \<Rightarrow> v)) \<longrightarrow>
            branch_decision st = (Summarize, set_decided_path ''manual_review'' st))
       \<and> (fst (branch_decision st) = Route \<longleftrightarrow>
            0.7 \<le> x \<and> truthy (case owner st of None \<Rightarrow> PNone | Some v \<Rightarrow> v))"
  using assms
  by (auto simp: branch_decision_def set_decided_path_def Let_def)

text \<open>
  C1 says that on the middle branch \<open>decided_path\<close> is set to manual\_review and the
  summarize stage runs next.  In scenario A the score stage returns the score 0.875 with
  no owner; \<open>branch_decision\<close> names the summarize stage and assigns manual\_review in the
  state it was called on; the summarize stage runs (its fallback summary is there), but
  the state it works on, and the record the run ends with, have no \<open>decided_path\<close>: the
  assignment made inside the edge function is lost.
\<close>

theorem branch_assignment_lost:
  "map_sum id (\<lambda>st. (score st, owner st, fst (branch_decision st),
                      decided_path (snd (branch_decision st))))
       (run_to_score tools_A (initial_state payload_A))
     = Inr (Some 0.875, None, Summarize, Some ''manual_review'')
   \<and> map_sum id (\<lambda>st. (summary st, decided_path st))
         (run_workflow tools_A (initial_state payload_A))
     = Inr (Some ''Summary generation failed'', None)"
  by code_simp

section \<open>The clamping law\<close>

text \<open>
  C2.  Whatever the normalized and enrichment data are and whatever the model scorer does
  (any returned number, or an exception), the score stage stores a score between 0 and 1.
  The stage stores nothing only when the rule scorer itself raises on ill-typed data, and
  then the stage raises that error.
\<close>

theorem score_clamped:
  "case rule_score st of
     Inl e \<Rightarrow> score_stage tls st = Inl e
   | Inr b \<Rightarrow> (\<exists>st' x. score_stage tls st = Inr st' \<and> score st' = Some x \<and> 0 \<le> x \<and> x \<le> 1)"
proof (cases "rule_score st")
  case (Inl e)
  then show ?thesis by (simp add: score_stage_def bindE_def)
next
  case (Inr b)
  then have rb: "0 \<le> b \<and> b \<le> 1" by (rule rule_score_range)
  show ?thesis
  proof (cases "score_lead_with_rubric tls st b")
    case (Inl m)
    with Inr rb show ?thesis by (simp add: score_stage_def bindE_def append_error_def)
  next
    case (Inr r)
    with \<open>rule_score st = Inr b\<close> show ?thesis
      by (cases r) (simp add: score_stage_def bindE_def clamp01_range)
  qed
qed

lemma rule_score_empty: "rule_score (initial_state []) = Inr 0"
  by code_simp

theorem score_clamped_witness:
  "map_sum id score (score_stage tools_wild (initial_state [])) = Inr (Some 1)
   \<and> map_sum id score (score_stage offline_tools (initial_state [])) = Inr (Some 0)"
proof -
  from score_clamped [of tools_wild "initial_state []"] rule_score_empty
  obtain a x where a: "score_stage tools_wild (initial_state []) = Inr a" "score a = Some x"
      "0 \<le> x" "x \<le> 1"
    by auto
  from a(1,2) have "x = clamp01 (0.5 * 0 + 0.5 * 7.5)"
    by (simp add: score_stage_def rule_score_empty bindE_def tools_wild_def) auto
  then have x: "x = 1" by (simp add: clamp01_def)
  from score_clamped [of offline_tools "initial_state []"] rule_score_empty
  obtain b y where b: "score_stage offline_tools (initial_state []) = Inr b" "score b = Some y"
    by auto
  from b have y: "y = 0"
    by (simp add: score_stage_def rule_score_empty bindE_def offline_tools_def) auto
  show ?thesis by (simp add: a b x y)
qed

section \<open>Enrich degradation\<close>

text \<open>
  C6.  When the normalized domain and email are both absent (or empty), the enrich stage
  sets \<open>enrichment\<close> to the empty dictionary and leaves \<open>errors\<close> as it is.  When the
  enrichment collaborator is called and raises, the stage appends one error that carries
  the cause and sets \<open>enrichment\<close> to the empty dictionary.  In both cases the stage
  returns a state: nothing is raised.
\<close>

theorem enrich_degradation:
  "(\<not> truthy (dict_get (get_dict (normalized st)) ''domain'' PNone)
      \<and> \<not> truthy (dict_get (get_dict (normalized st)) ''email'' PNone)
    \<longrightarrow> enrich tls st = st\<lparr>enrichment := Some []\<rparr>
        \<and> enrichment (enrich tls st) = Some []
        \<and> errors (enrich tls st) = errors st)
   \<and> ((truthy (dict_get (get_dict (normalized st)) ''domain'' PNone)
         \<or> truthy (dict_get (get_dict (normalized st)) ''email'' PNone))
      \<and> enrich_domain_person tls (dict_get (get_dict (normalized st)) ''domain'' PNone)
                                 (dict_get (get_dict (normalized st)) ''email'' PNone) = Inl cause
    \<longrightarrow> enrich tls st = (append_error (''Enrichment failed: '' @ cause) st)\<lparr>enrichment := Some []\<rparr>
        \<and> enrichment (enrich tls st) = Some []
        \<and> errors (enrich tls st) =
            Some ((case errors st of None \<Rightarrow> [] | Some es \<Rightarrow> es) @ [''Enrichment failed: '' @ cause]))"
  by (auto simp: enrich_def Let_def append_error_def)

theorem enrich_degradation_witness:
  "enrichment (enrich offline_tools (initial_state [])) = Some []
   \<and> errors (enrich offline_tools (initial_state [])) = Some []
   \<and> enrichment (enrich offline_tools state_with_email) = Some []
   \<and> errors (enrich offline_tools state_with_email) = Some [''Enrichment failed: offline'']"
proof -
  have absent: "\<not> truthy (dict_get (get_dict (normalized (initial_state []))) ''domain'' PNone)
      \<and> \<not> truthy (dict_get (get_dict (normalized (initial_state []))) ''email'' PNone)"
    by (simp add: initial_state_def get_dict_def dict_get_def)
  have present: "truthy (dict_get (get_dict (normalized state_with_email)) ''email'' PNone)"
    by (simp add: state_with_email_def get_dict_def dict_get_def)
  have raises: "enrich_domain_person offline_tools
                  (dict_get (get_dict (normalized state_with_email)) ''domain'' PNone)
                  (dict_get (get_dict (normalized state_with_email)) ''email'' PNone) = Inl ''offline''"
    by (simp add: offline_tools_def)
  have e0: "errors (initial_state []) = Some []" "errors state_with_email = Some []"
    by (simp_all add: state_with_email_def initial_state_def)
  show ?thesis
    using enrich_degradation [of "initial_state []" offline_tools]
          enrich_degradation [of state_with_email offline_tools "''offline''"]
          absent present raises
    by (simp add: e0 append_error_def)
qed

section \<open>The payload is never modified\<close>

lemma append_error_raw: "raw (append_error m st) = raw st"
  by (simp add: append_error_def)

lemma capture_raw: "capture tls st = Inr st' \<Longrightarrow> raw st' = raw st"
  unfolding capture_def Let_def
  by (elim bindE_InrE) (auto simp: append_error_raw split: if_splits)

lemma enrich_raw: "raw (enrich tls st) = raw st"
  by (simp add: enrich_def Let_def append_error_raw split: sum.splits)

lemma score_stage_raw: "score_stage tls st = Inr st' \<Longrightarrow> raw st' = raw st"
  unfolding score_stage_def
  by (elim bindE_InrE) (auto simp: append_error_raw split: sum.splits prod.splits)

lemma route_fallback_raw: "route_fallback tls e st = Inr st' \<Longrightarrow> raw st' = raw st"
  unfolding route_fallback_def Let_def
  by (auto simp: append_error_raw bindE_def split: sum.splits)

lemma upsert_contact_raw: "raw (upsert_contact tls st) = raw st"
  by (simp add: upsert_contact_def append_error_raw split: sum.splits)

lemma route_raw: "route tls st = Inr st' \<Longrightarrow> raw st' = raw st"
  unfolding route_def Let_def
  by (auto simp: upsert_contact_raw split: sum.splits dest: route_fallback_raw)

lemma summarize_raw: "raw (summarize tls st) = raw st"
  by (simp add: summarize_def Let_def append_error_raw split: sum.splits)

lemma nurture_raw: "raw (nurture tls st) = raw st"
  by (simp add: nurture_def Let_def set_decided_path_def)

text \<open>
  C9.  For each of the six stage functions and every input state, the \<open>raw\<close> field of the
  state the stage returns is the \<open>raw\<close> field it was given.  (Capture, score and route can
  raise instead of returning; the other three always return.)
\<close>

theorem raw_frame:
  "(\<forall>st'. capture tls st = Inr st' \<longrightarrow> raw st' = raw st)
   \<and> raw (enrich tls st) = raw st
   \<and> (\<forall>st'. score_stage tls st = Inr st' \<longrightarrow> raw st' = raw st)
   \<and> (\<forall>st'. route tls st = Inr st' \<longrightarrow> raw st' = raw st)
   \<and> raw (summarize tls st) = raw st
   \<and> raw (nurture tls st) = raw st"
  using capture_raw enrich_raw score_stage_raw route_raw summarize_raw nurture_raw by blast

lemma returns_on_payload_A:
  "case capture offline_tools (initial_state payload_A) of Inr st' \<Rightarrow> True | Inl e \<Rightarrow> False"
  "case score_stage offline_tools (initial_state payload_A) of Inr st' \<Rightarrow> True | Inl e \<Rightarrow> False"
  "case route offline_tools (initial_state payload_A) of Inr st' \<Rightarrow> True | Inl e \<Rightarrow> False"
  by code_simp+

theorem raw_frame_witness:
  "map_sum id raw (capture offline_tools (initial_state payload_A)) = Inr (Some payload_A)
   \<and> map_sum id raw (score_stage offline_tools (initial_state payload_A)) = Inr (Some payload_A)
   \<and> map_sum id raw (route offline_tools (initial_state payload_A)) = Inr (Some payload_A)
   \<and> raw (enrich offline_tools (initial_state payload_A)) = Some payload_A
   \<and> raw (summarize offline_tools (initial_state payload_A)) = Some payload_A
   \<and> raw (nurture offline_tools (initial_state payload_A)) = Some payload_A"
proof -
  have r0: "raw (initial_state payload_A) = Some payload_A"
    by (simp add: initial_state_def)
  obtain c where c: "capture offline_tools (initial_state payload_A) = Inr c"
    using returns_on_payload_A(1) by (auto split: sum.splits)
  obtain s where s: "score_stage offline_tools (initial_state payload_A) = Inr s"
    using returns_on_payload_A(2) by (auto split: sum.splits)
  obtain r where r: "route offline_tools (initial_state payload_A) = Inr r"
    using returns_on_payload_A(3) by (auto split: sum.splits)
  show ?thesis
    using raw_frame [of offline_tools "initial_state payload_A"] c s r
    by (simp add: r0)
qed

section \<open>Route fallback\<close>

text \<open>
  Where the routing configuration loads as a mapping \<open>table\<close> (the file is missing, is not
  JSON, or holds a JSON object), the route stage does what C7 says.  If owner resolution
  raises, the stage completes: it appends an error, sets \<open>owner\<close> to the table's \<open>DEFAULT\<close>
  entry (\<^verbatim>\<open>unassigned@company.com\<close> if the table has none) and \<open>route_reason\<close> to the
  fallback reason.  If owner resolution succeeds and only the CRM upsert raises, the stage
  completes with the resolved owner and its route reason, \<open>crm_record_id\<close> set to
  \<^verbatim>\<open>None\<close>, and one error appended.
\<close>

lemma route_fallback_on_mapping:
  "(load_routing_rules (routing_config tls) = Inr (PDict table)
      \<and> find_owner_by_rules tls (get_dict (normalized st)) (get_dict (enrichment st)) (PDict table) = Inl e
    \<longrightarrow> route tls st =
          Inr ((append_error (''Routing failed: '' @ e) st)
                 \<lparr>owner := Some (dict_get table ''DEFAULT'' (PStr ''unassigned@company.com'')),
                  route_reason := Some ''Fallback to default owner due to routing error''\<rparr>))
   \<and> (load_routing_rules (routing_config tls) = Inr routes
      \<and> find_owner_by_rules tls (get_dict (normalized st)) (get_dict (enrichment st)) routes = Inr own
      \<and> create_or_update_contact tls (st\<lparr>owner := Some own\<rparr>) = Inl e
    \<longrightarrow> (\<exists>st'. route tls st = Inr st'
           \<and> owner st' = Some own
           \<and> crm_record_id st' = Some PNone
           \<and> errors st' = Some ((case errors st of None \<Rightarrow> [] | Some es \<Rightarrow> es)
                                 @ [''CRM operation failed: '' @ e])
           \<and> route_reason st' =
               Some (''Matched territory ''
                     @ py_str (py_format tls)
                         (dict_get (get_dict (normalized st)) ''country'' (PStr ''unknown''))
                     @ '' '' @ arrow @ '' '' @ py_str (py_format tls) own)))"
  by (auto simp: route_def route_fallback_def upsert_contact_def append_error_def py_get_def
                 bindE_def Let_def)

text \<open>
  C7 says that whenever owner resolution raises the route stage falls back to the
  \<open>DEFAULT\<close> owner and completes.  With a routing file that holds the JSON array
  \<^verbatim>\<open>[]\<close>, the file loads, owner resolution raises on it, and the handler, which loads the
  rules again and calls \<^verbatim>\<open>routes.get\<close> outside any \<^verbatim>\<open>try\<close>, raises \<open>AttributeError\<close>:
  for every state the stage raises instead of completing, and no owner is set.  A routing
  file that cannot be read ends the stage in the same way, with the error of the second
  load.
\<close>

theorem route_bad_config_raises:
  "route tools_list_config st = Inl AttributeError
   \<and> route (offline_tools\<lparr>routing_config := Unreadable cause\<rparr>) st = Inl (Raised cause)"
  by (simp add: route_def route_fallback_def tools_list_config_def offline_tools_def
                py_get_def bindE_def Let_def)

section \<open>The idempotency guard\<close>

lemma twice_same_key:
  assumes "key \<noteq> []" "\<not> held g t1 key" "served g up1 t1 ttl" "served g up2 t2 ttl"
          "t1 \<le> t2" "t2 < t1 + real_of_int ttl"
  shows "fst (check_and_set g up1 t1 key ttl)
         \<and> \<not> fst (check_and_set (snd (check_and_set g up1 t1 key ttl)) up2 t2 key ttl)"
proof (cases g)
  case (Redis store)
  with assms show ?thesis
    by (auto simp: check_and_set_def redis_set_nx_ex_def held_def served_def
             split: option.splits)
next
  case (Memory keys)
  with assms show ?thesis
    by (simp add: check_and_set_def held_def)
qed

lemma fails_open:
  assumes "key \<noteq> []" "\<not> served g up now ttl"
  shows "check_and_set g up now key ttl = (True, g)"
  using assms
  by (cases g) (auto simp: check_and_set_def redis_set_nx_ex_def served_def)

lemma two_distinct_keys:
  assumes "k1 \<noteq> []" "k2 \<noteq> []" "k1 \<noteq> k2" "\<not> held g t1 k1" "\<not> held g t2 k2"
  shows "fst (check_and_set g up1 t1 k1 ttl1)
         \<and> fst (check_and_set (snd (check_and_set g up1 t1 k1 ttl1)) up2 t2 k2 ttl2)"
proof (cases g)
  case (Redis store)
  with assms show ?thesis
    by (auto simp: check_and_set_def redis_set_nx_ex_def held_def
             split: option.splits)
next
  case (Memory keys)
  with assms show ?thesis
    by (simp add: check_and_set_def held_def)
qed

lemma empty_key: "check_and_set g up now [] ttl = (False, g)"
  by (simp add: check_and_set_def)

text \<open>
  C3, as the code has it.  Take a guard that does not hold the non-empty key \<open>key\<close>.  Two
  calls of \<open>check_and_set\<close> for \<open>key\<close>, the second within the ttl window of the first,
  return true and then false, provided both calls are served: the guard uses the
  process-local set, or the store answers and accepts the expiry.  A call for a non-empty
  key that is not served fails open: it returns true and leaves the guard as it was.  Two
  calls for distinct non-empty keys that the guard does not hold both return true.  A
  call for the empty key returns false and changes nothing.
\<close>

theorem idempotency_guard:
  "(key \<noteq> [] \<and> \<not> held g t1 key \<and> served g up1 t1 ttl \<and> served g up2 t2 ttl
      \<and> t1 \<le> t2 \<and> t2 < t1 + real_of_int ttl
    \<longrightarrow> fst (check_and_set g up1 t1 key ttl)
        \<and> \<not> fst (check_and_set (snd (check_and_set g up1 t1 key ttl)) up2 t2 key ttl))
   \<and> (key \<noteq> [] \<and> \<not> served g up now ttl \<longrightarrow> check_and_set g up now key ttl = (True, g))
   \<and> (k1 \<noteq> [] \<and> k2 \<noteq> [] \<and> k1 \<noteq> k2 \<and> \<not> held g t1 k1 \<and> \<not> held g t2 k2
    \<longrightarrow> fst (check_and_set g up1 t1 k1 ttl1)
        \<and> fst (check_and_set (snd (check_and_set g up1 t1 k1 ttl1)) up2 t2 k2 ttl2))
   \<and> check_and_set g up now [] ttl = (False, g)"
  using twice_same_key [of key g t1 up1 ttl up2 t2]
        fails_open [of key g up now ttl]
        two_distinct_keys [of k1 k2 g t1 t2 up1 ttl1 up2 ttl2]
        empty_key [of g up now ttl]
  by blast

theorem idempotency_guard_witness:
  "fst (check_and_set (Redis Map.empty) True 100 ''evt-1'' 3600)
   \<and> \<not> fst (check_and_set (snd (check_and_set (Redis Map.empty) True 100 ''evt-1'' 3600))
               True 200 ''evt-1'' 3600)
   \<and> check_and_set (Redis Map.empty) False 100 ''evt-1'' 3600 = (True, Redis Map.empty)
   \<and> check_and_set (Redis Map.empty) True 100 ''evt-1'' (2 ^ 63 - 1) = (True, Redis Map.empty)
   \<and> fst (check_and_set (Redis Map.empty) True 100 ''key_1'' 3600)
   \<and> fst (check_and_set (snd (check_and_set (Redis Map.empty) True 100 ''key_1'' 3600))
             True 200 ''key_2'' 3600)
   \<and> \<not> fst (check_and_set (Redis Map.empty) True 100 [] 3600)"
proof -
  have h: "\<not> held (Redis Map.empty) t k" for t k
    by (simp add: held_def)
  have a: "served (Redis Map.empty) True 100 3600" "served (Redis Map.empty) True 200 3600"
    by (simp_all add: served_def expire_ok_def)
  have d: "\<not> served (Redis Map.empty) False 100 3600"
          "\<not> served (Redis Map.empty) True 100 (2 ^ 63 - 1)"
    by (simp_all add: served_def expire_ok_def)
  have k: "''evt-1'' \<noteq> []" "''key_1'' \<noteq> []" "''key_2'' \<noteq> []" "''key_1'' \<noteq> ''key_2''"
    by simp_all
  have w: "(100::real) \<le> 200" "(200::real) < 100 + real_of_int 3600"
    by simp_all
  from idempotency_guard [of "''evt-1''" "Redis Map.empty" 100 True 3600 True 200 False 100
                             "''key_1''" "''key_2''" 3600 3600] h a d(1) k w
  have p1: "fst (check_and_set (Redis Map.empty) True 100 ''evt-1'' 3600)
            \<and> \<not> fst (check_and_set (snd (check_and_set (Redis Map.empty) True 100 ''evt-1'' 3600))
                        True 200 ''evt-1'' 3600)"
       and p2: "check_and_set (Redis Map.empty) False 100 ''evt-1'' 3600 = (True, Redis Map.empty)"
       and p3: "fst (check_and_set (Redis Map.empty) True 100 ''key_1'' 3600)
            \<and> fst (check_and_set (snd (check_and_set (Redis Map.empty) True 100 ''key_1'' 3600))
                      True 200 ''key_2'' 3600)"
       and p4: "check_and_set (Redis Map.empty) False 100 [] 3600 = (False, Redis Map.empty)"
    by blast+
  from idempotency_guard [of "''evt-1''" "Redis Map.empty" 100 True "2 ^ 63 - 1" True 200 True 100
                             "''key_1''" "''key_2''" 3600 3600] d(2) k
  have p5: "check_and_set (Redis Map.empty) True 100 ''evt-1'' (2 ^ 63 - 1) = (True, Redis Map.empty)"
    by blast
  show ?thesis
    using p1 p2 p3 p5 by (simp add: empty_key)
qed

text \<open>
  The store answers the first call and is down at the second, well inside the ttl window:
  both calls return true.
\<close>

theorem idempotency_counterexample:
  "fst (check_and_set (Redis Map.empty) True 100 ''evt-1'' 3600)
   \<and> fst (check_and_set (snd (check_and_set (Redis Map.empty) True 100 ''evt-1'' 3600))
           False 200 ''evt-1'' 3600)"
  by (simp add: check_and_set_def redis_set_nx_ex_def expire_ok_def)

lemma do_call_memory:
  assumes "key \<in> keys" "fst c \<noteq> ClearKey key"
  shows "\<exists>keys'. do_call (Memory keys) c = Memory keys' \<and> key \<in> keys'"
proof (cases c)
  case (fields op up now)
  with assms show ?thesis
    by (cases op) (auto simp: check_and_set_def clear_key_def)
qed

lemma do_calls_memory:
  assumes "key \<in> keys" "\<forall>c \<in> set cs. fst c \<noteq> ClearKey key"
  shows "\<exists>keys'. do_calls (Memory keys) cs = Memory keys' \<and> key \<in> keys'"
  using assms
proof (induction cs arbitrary: keys)
  case Nil
  then show ?case by (simp add: do_calls_def)
next
  case (Cons c cs)
  then obtain keys1 where k1: "do_call (Memory keys) c = Memory keys1" "key \<in> keys1"
    using do_call_memory [of key keys c] by auto
  with Cons.IH [of keys1] Cons.prems show ?case
    by (simp add: do_calls_def)
qed

lemma do_calls_stays_memory:
  "\<exists>keys'. do_calls (Memory keys) cs = Memory keys'"
proof (induction cs arbitrary: keys)
  case Nil
  then show ?case by (simp add: do_calls_def)
next
  case (Cons c cs)
  obtain op up now where c: "c = (op, up, now)" by (cases c)
  have "\<exists>keys1. do_call (Memory keys) c = Memory keys1"
    unfolding c by (cases op) (auto simp: check_and_set_def clear_key_def)
  with Cons.IH show ?case by (auto simp: do_calls_def)
qed

text \<open>
  C10.  Let the store be unreachable when the guard is constructed, so that the guard
  uses the process-local set, and let \<open>g\<close> be the guard after any earlier calls.  Once
  \<open>check_and_set\<close> has returned true for a non-empty key, with any ttl, every later
  \<open>check_and_set\<close> for that key returns false, at whatever instant and with whatever ttl,
  and whatever calls come in between, as long as none of them is \<open>clear_key\<close> of that key:
  the ttl is ignored and the key never expires.
\<close>

theorem fallback_ignores_ttl:
  assumes "g = do_calls (init_idem False store) earlier"
      and "key \<noteq> []"
      and "fst (check_and_set g up1 t1 key ttl1)"
      and "\<forall>c \<in> set later. fst c \<noteq> ClearKey key"
  shows "\<not> fst (check_and_set (do_calls (snd (check_and_set g up1 t1 key ttl1)) later)
                  up2 t2 key ttl2)"
proof -
  obtain keys where g: "g = Memory keys"
    using assms(1) do_calls_stays_memory [of "{}" earlier] by (auto simp: init_idem_def)
  with assms(2,3) have fresh: "key \<notin> keys"
    by (auto simp: check_and_set_def split: if_splits)
  with g assms(2) have g1: "snd (check_and_set g up1 t1 key ttl1) = Memory (insert key keys)"
    by (simp add: check_and_set_def)
  obtain keys2 where "do_calls (Memory (insert key keys)) later = Memory keys2" "key \<in> keys2"
    using do_calls_memory [of key "insert key keys" later] assms(4) by auto
  with g1 assms(2) show ?thesis
    by (simp add: check_and_set_def)
qed

theorem fallback_ignores_ttl_witness:
  "fst (check_and_set (init_idem False Map.empty) False 100 ''evt-1'' 1)
   \<and> \<not> fst (check_and_set
              (do_calls (snd (check_and_set (init_idem False Map.empty) False 100 ''evt-1'' 1))
                 [(CheckAndSet ''evt-2'' 5, False, 200), (ClearKey ''evt-2'', False, 300)])
              False 1000000 ''evt-1'' 3600)"
proof -
  have g: "init_idem False Map.empty = do_calls (init_idem False Map.empty) []"
    by (simp add: do_calls_def)
  have k: "''evt-1'' \<noteq> []" by simp
  have first: "fst (check_and_set (init_idem False Map.empty) False 100 ''evt-1'' 1)"
    by (simp add: init_idem_def check_and_set_def)
  have later: "\<forall>c \<in> set [(CheckAndSet ''evt-2'' 5, False, 200::real), (ClearKey ''evt-2'', False, 300)].
                 fst c \<noteq> ClearKey ''evt-1''"
    by simp
  from fallback_ignores_ttl [OF g k first later, of False 1000000 3600] first
  show ?thesis by simp
qed

section \<open>Scenario A\<close>

lemma str_facts:
  "str_lower ''j@acme.com'' = ''j@acme.com''"
  "str_lower ''Director'' = ''director''"
  "str_lower ''saas'' = ''saas''"
  "str_upper ''US'' = ''US''"
  "contains_any ''director'' buying_roles"
  "\<not> endswith_any ''j@acme.com'' free_domains"
  "''saas'' \<in> set icp_industries"
  "''US'' \<in> set allowed_countries"
  "before_slash (str_remove ''http://'' (str_remove ''https://'' [])) = []"
  by code_simp+

lemma normalize_A: "normalize fmt payload_A = Inr normalized_A"
  by (simp add: normalize_def capture_email_def capture_company_def capture_domain_def
        capture_full_name_def payload_A_def normalized_A_def dict_get_def py_or_def
        as_str_def bindE_def str_facts before_slash_def)

lemma missing_A: "missing_fields normalized_A = []"
  by (simp add: missing_fields_def normalized_A_def REQUIRED_FIELDS_def dict_get_def)

lemma capture_A:
  "capture tls (initial_state payload_A) =
     Inr ((initial_state payload_A)
            \<lparr>normalized := Some normalized_A, lead_id := Some (PStr ''j@acme.com'')\<rparr>)"
  by (simp add: capture_def get_dict_def initial_state_def normalize_A missing_A bindE_def Let_def)
     (simp add: payload_A_def normalized_A_def dict_get_def py_or_def)

lemma rule_score_A:
  assumes "normalized st = Some normalized_A" "enrichment st = Some enrichment_A"
  shows "rule_score st = Inr 0.9"
  using assms
  by (simp add: rule_score_def get_dict_def dict_get_def normalized_A_def enrichment_A_def
        py_get_def py_ge_def as_str_def py_or_def bindE_def min_headcount_def
        blocked_free_email_def str_facts clamp01_def)

text \<open>
  C4, as the code has it.  For the payload of scenario A, with the enrichment provider
  returning a headcount of 150 and the industry saas and nothing else, the rule score is
  0.9 (0.3 headcount + 0.1 bonus + 0.2 industry + 0.2 title + 0.1 country; nothing is cut
  off by the clamp), and with the model scorer returning 0.85 the final score is
  0.5 * 0.9 + 0.5 * 0.85 = 0.875.
\<close>

theorem scenario_A_scores:
  assumes "enrich_domain_person tls (PStr []) (PStr ''j@acme.com'') = Inr enrichment_A"
  shows "\<exists>st. enriched tls payload_A = Inr st
            \<and> rule_score st = Inr 0.9
            \<and> (\<forall>reasons. score_lead_with_rubric tls st 0.9 = Inr (0.85, reasons)
                 \<longrightarrow> map_sum id score (score_stage tls st) = Inr (Some 0.875))"
proof -
  let ?c = "(initial_state payload_A)
              \<lparr>normalized := Some normalized_A, lead_id := Some (PStr ''j@acme.com'')\<rparr>"
  have e: "enrich tls ?c = ?c\<lparr>enrichment := Some enrichment_A\<rparr>"
    using assms by (simp add: enrich_def get_dict_def dict_get_def normalized_A_def)
  have en: "enriched tls payload_A = Inr (?c\<lparr>enrichment := Some enrichment_A\<rparr>)"
    by (simp add: enriched_def capture_A bindE_def e)
  have rs: "rule_score (?c\<lparr>enrichment := Some enrichment_A\<rparr>) = Inr 0.9"
    by (rule rule_score_A) simp_all
  show ?thesis
    using en rs by (auto simp: score_stage_def bindE_def clamp01_def)
qed

theorem scenario_A_scores_witness:
  "bindE (enriched tools_A payload_A) rule_score = Inr 0.9
   \<and> map_sum id score (bindE (enriched tools_A payload_A) (score_stage tools_A))
     = Inr (Some 0.875)"
proof -
  have h: "enrich_domain_person tools_A (PStr []) (PStr ''j@acme.com'') = Inr enrichment_A"
    by (simp add: tools_A_def)
  have s: "\<And>st. score_lead_with_rubric tools_A st 0.9 = Inr (0.85, [''ICP match: SaaS''])"
    by (simp add: tools_A_def)
  from scenario_A_scores [OF h] s show ?thesis
    by (auto simp: bindE_def)
qed

text \<open>The figures of the claim, 1.0 and 0.925, are not what the stage computes.\<close>

theorem scenario_A_counterexample:
  "bindE (enriched tools_A payload_A) rule_score \<noteq> Inr 1
   \<and> map_sum id score (bindE (enriched tools_A payload_A) (score_stage tools_A))
     \<noteq> Inr (Some 0.925)"
  by code_simp

section \<open>Capture validation\<close>

lemma plain_email:
  assumes "plain_payload r" shows "\<exists>s. capture_email r = Inr s"
  using assms
  by (auto simp: plain_payload_def capture_email_def dict_get_def py_get_def as_str_def bindE_def
           split: option.splits pyval.splits)

lemma plain_company:
  assumes "plain_payload r" shows "\<exists>c. capture_company r = Inr c"
  using assms
  by (auto simp: plain_payload_def capture_company_def dict_get_def py_get_def Let_def)

lemma plain_domain:
  assumes "plain_payload r" shows "\<exists>s. capture_domain r = Inr s"
  using assms
  by (auto simp: plain_payload_def capture_domain_def dict_get_def py_or_def as_str_def bindE_def
           split: option.splits pyval.splits)

lemma plain_normalize:
  assumes "plain_payload r" shows "\<exists>n. normalize fmt r = Inr n"
  using plain_email [OF assms] plain_company [OF assms] plain_domain [OF assms]
  by (auto simp: normalize_def bindE_def)

text \<open>
  Where normalization does not raise (on every plain payload, for one), the capture stage
  does what C5 says: it returns, with \<open>normalized\<close> and \<open>lead_id\<close> set, and it appends one
  entry that lists all the missing required fields if there is any, and nothing otherwise.
\<close>

lemma capture_validation:
  "(plain_payload (get_dict (raw st)) \<longrightarrow> (\<exists>n. normalize (py_format tls) (get_dict (raw st)) = Inr n))
   \<and> (normalize (py_format tls) (get_dict (raw st)) = Inr n \<longrightarrow>
        (\<exists>st'. capture tls st = Inr st'
           \<and> normalized st' = Some n
           \<and> lead_id st' = Some (py_or (dict_get (get_dict (raw st)) ''id'' PNone)
                                        (dict_get n ''email'' PNone))
           \<and> errors st' =
               (if \<exists>f \<in> set [''email'', ''company'', ''full_name'']. \<not> truthy (dict_get n f PNone)
                then Some ((case errors st of None \<Rightarrow> [] | Some es \<Rightarrow> es)
                           @ [''Missing required fields: ''
                              @ repr_names (filter (\<lambda>f. \<not> truthy (dict_get n f PNone))
                                              [''email'', ''company'', ''full_name''])])
                else errors st)))"
proof (intro conjI impI)
  assume "plain_payload (get_dict (raw st))"
  then show "\<exists>n. normalize (py_format tls) (get_dict (raw st)) = Inr n"
    by (rule plain_normalize)
next
  assume n: "normalize (py_format tls) (get_dict (raw st)) = Inr n"
  have m: "(missing_fields n \<noteq> []) =
           (\<exists>f \<in> set [''email'', ''company'', ''full_name'']. \<not> truthy (dict_get n f PNone))"
    unfolding missing_fields_def REQUIRED_FIELDS_def filter_empty_conv by blast
  show "\<exists>st'. capture tls st = Inr st'
           \<and> normalized st' = Some n
           \<and> lead_id st' = Some (py_or (dict_get (get_dict (raw st)) ''id'' PNone)
                                        (dict_get n ''email'' PNone))
           \<and> errors st' =
               (if \<exists>f \<in> set [''email'', ''company'', ''full_name'']. \<not> truthy (dict_get n f PNone)
                then Some ((case errors st of None \<Rightarrow> [] | Some es \<Rightarrow> es)
                           @ [''Missing required fields: ''
                              @ repr_names (filter (\<lambda>f. \<not> truthy (dict_get n f PNone))
                                              [''email'', ''company'', ''full_name''])])
                else errors st)"
    unfolding m [symmetric]
    by (simp add: capture_def n bindE_def Let_def append_error_def missing_message_def)
       (simp add: missing_fields_def REQUIRED_FIELDS_def)
qed

lemma capture_email_only:
  "map_sum id errors (capture offline_tools (initial_state payload_email_only))
     = Inr (Some [''Missing required fields: '' @ repr_names [''company'', ''full_name'']])"
  by code_simp

text \<open>
  C5 says that for every payload with a required field missing the capture stage appends
  one combined error entry and returns normally.  On the payload whose email is given in
  the nested form with the value \<^verbatim>\<open>null\<close> (so that the email is missing) the stage raises
  \<open>AttributeError\<close> instead, from \<^verbatim>\<open>.lower()\<close> on \<^verbatim>\<open>None\<close>: no entry is appended and no
  state is returned.
\<close>

theorem capture_null_email_raises:
  "capture tls (initial_state payload_null_email) = Inl AttributeError"
  by (simp add: capture_def normalize_def capture_email_def initial_state_def get_dict_def
        payload_null_email_def dict_get_def py_get_def as_str_def bindE_def)

section \<open>Assignments to decided\_path\<close>














end
